theory Spec2Isabelle
  imports Main "HOL-Library.Char_ord" "HOL-Library.List_Lexorder"
begin

section \<open>Exceptions, the outside world, file objects\<close>

text \<open>
  The exceptions the comparators distinguish. \<open>CalledProcessError\<close> is Python's
  \<^verbatim>\<open>subprocess.CalledProcessError\<close> with its \<^verbatim>\<open>cmd\<close>, \<^verbatim>\<open>returncode\<close> and \<^verbatim>\<open>output\<close>
  (\<open>None\<close> or bytes; the selector is \<open>output_of\<close>); \<open>RequiredToolNotFound\<close> carries the \<^verbatim>\<open>command\<close> that was looked
  for; every other exception (\<^verbatim>\<open>AttributeError\<close>, \<^verbatim>\<open>OSError\<close>, \<^verbatim>\<open>IndexError\<close>, ...) is
  \<open>OtherError\<close> with its class name. A computation that may raise returns \<open>exn + 'a\<close>,
  \<open>Inl\<close> being the raised exception.
\<close>

datatype exn =
    CalledProcessError (cmd: "string list") (returncode: int) (output_of: "string option")
  | RequiredToolNotFound (command: string)
  | OtherError string

datatype Difference =
  Difference (unified_diff: "string option") (source1: string) (source2: string)
             (comments: "string list") (details: "Difference list")

text \<open>
  The \<^verbatim>\<open>source\<close> argument of the \<^verbatim>\<open>Difference\<close> constructor and of \<^verbatim>\<open>from_command\<close>:
  absent, one label, or a list of two labels.
\<close>

datatype source_arg = NoSource | Source string | SourcePair string string

text \<open>
  Everything the comparators ask of the operating system, of external tools and of
  modules of the repository that are not part of the sources under study is a field of
  the record \<open>world\<close>:
  \<^item> \<open>find_executable\<close>: whether a tool is installed (what \<^verbatim>\<open>tool_required\<close> tests);
  \<^item> \<open>getsize\<close>, \<open>read_file\<close>: \<^verbatim>\<open>os.path.getsize\<close> and \<^verbatim>\<open>open(path, 'rb').read()\<close>;
  \<^item> \<open>subprocess_call\<close>: the exit status \<^verbatim>\<open>subprocess.call\<close> returns for a command line;
  \<^item> \<open>check_output\<close>: \<^verbatim>\<open>subprocess.check_output\<close> (raises \<open>CalledProcessError\<close> on a
    non-zero exit);
  \<^item> \<open>realpath\<close>, \<open>walk\<close>: \<^verbatim>\<open>os.path.realpath\<close> and the triples \<^verbatim>\<open>(root, dirs, files)\<close> that
    \<^verbatim>\<open>os.walk\<close> yields, in the order it yields them;
  \<^item> \<open>from_command\<close>, \<open>from_text\<close>: \<^verbatim>\<open>Difference.from_command\<close> (by the name of the
    \<^verbatim>\<open>Command\<close> class) and \<^verbatim>\<open>Difference.from_text\<close> of \<^verbatim>\<open>diffoscope/difference.py\<close>; a text
    argument of \<open>from_text\<close> is optional because \<^verbatim>\<open>lsattr\<close> may hand it \<^verbatim>\<open>None\<close>;
  \<^item> \<open>source_labels\<close>: how the constructor of \<^verbatim>\<open>Difference\<close> derives the labels
    \<^verbatim>\<open>source1\<close>, \<^verbatim>\<open>source2\<close> from its arguments \<^verbatim>\<open>path1\<close>, \<^verbatim>\<open>path2\<close>, \<^verbatim>\<open>source\<close>;
  \<^item> \<open>reverse_unified_diff\<close>: what \<^verbatim>\<open>Difference.get_reverse\<close> does to the textual payload;
  \<^item> \<open>get_package\<close>: \<^verbatim>\<open>RequiredToolNotFound.get_package\<close>;
  \<^item> \<open>decode_utf8_replace\<close>: \<^verbatim>\<open>bytes.decode('utf-8', errors='replace')\<close>;
  \<^item> \<open>compare_details\<close>: the \<^verbatim>\<open>compare_details\<close> method of a format-specific subclass of
    \<^verbatim>\<open>File\<close>, by the addresses of the two file objects;
  \<^item> \<open>container_compare\<close>: \<^verbatim>\<open>Container.compare\<close> of \<^verbatim>\<open>diffoscope/comparators/utils.py\<close>,
    by the addresses of the container objects;
  \<^item> \<open>compare_override\<close>: the \<^verbatim>\<open>compare\<close> method of a class that specializes \<^verbatim>\<open>compare\<close>
    directly;
  \<^item> \<open>compare_files\<close>: \<^verbatim>\<open>diffoscope.comparators.compare_files\<close> on two
    \<^verbatim>\<open>FilesystemFile\<close>s, by their names.
\<close>

record world =
  find_executable :: "string \<Rightarrow> bool"
  getsize :: "string \<Rightarrow> exn + nat"
  read_file :: "string \<Rightarrow> exn + string"
  subprocess_call :: "string list \<Rightarrow> int"
  check_output :: "string list \<Rightarrow> exn + string"
  realpath :: "string \<Rightarrow> string"
  walk :: "string \<Rightarrow> (string \<times> string list \<times> string list) list"
  from_command :: "string \<Rightarrow> string \<Rightarrow> string \<Rightarrow> source_arg \<Rightarrow> exn + Difference option"
  from_text :: "string option \<Rightarrow> string option \<Rightarrow> string \<Rightarrow> string \<Rightarrow> source_arg
                 \<Rightarrow> string option \<Rightarrow> exn + Difference option"
  source_labels :: "string \<Rightarrow> string \<Rightarrow> source_arg \<Rightarrow> string \<times> string"
  reverse_unified_diff :: "string \<Rightarrow> string"
  get_package :: "string \<Rightarrow> string option"
  decode_utf8_replace :: "string \<Rightarrow> string"
  compare_details :: "nat \<Rightarrow> nat \<Rightarrow> source_arg \<Rightarrow> exn + Difference option list"
  container_compare :: "nat \<Rightarrow> nat option \<Rightarrow> exn + Difference option list"
  compare_override :: "nat \<Rightarrow> nat \<Rightarrow> source_arg \<Rightarrow> exn + Difference option"
  compare_files :: "string \<Rightarrow> string \<Rightarrow> source_arg \<Rightarrow> exn + Difference option"

text \<open>
  A file object. \<open>klass\<close> tells a \<^verbatim>\<open>NonExistingFile\<close> from the other subclasses of \<^verbatim>\<open>File\<close>;
  \<open>CONTAINER_CLASS\<close>, \<open>has_compare_details\<close> and \<open>overrides_compare\<close> are what its class
  declares. \<open>name\<close> is \<^verbatim>\<open>_name\<close>; \<open>content_path\<close> is what the \<^verbatim>\<open>path\<close> property of a real
  file returns (\<^verbatim>\<open>_name\<close> for a \<^verbatim>\<open>FilesystemFile\<close>). The two optional attributes are
  \<open>None\<close> while the object has no such attribute: \<open>other_file\<close> is \<^verbatim>\<open>_other_file\<close> (it may
  hold Python's \<^verbatim>\<open>None\<close>, here \<open>Some None\<close>, or the address of the counterpart) and
  \<open>as_container_attr\<close> is \<^verbatim>\<open>_as_container\<close> (the address of the cached container).
\<close>

datatype file_class = RealFile | NonExistingFile

record file_obj =
  klass :: file_class
  CONTAINER_CLASS :: "string option"
  has_compare_details :: bool
  overrides_compare :: bool
  name :: string
  content_path :: string
  other_file :: "nat option option"
  as_container_attr :: "nat option"

text \<open>
  A container object: the class it was instantiated from and the address of the file
  object it was built for (\<^verbatim>\<open>Container.source\<close>).
\<close>

record container =
  container_class :: string
  source :: nat

text \<open>
  The object store: the file objects by address, and the container objects in the order
  of their construction; the address of a container is its position in that list.
\<close>

record heap =
  files :: "nat \<Rightarrow> file_obj"
  containers :: "container list"

definition path :: "file_obj \<Rightarrow> string" where
  "path f = (case klass f of NonExistingFile \<Rightarrow> ''/dev/null'' | RealFile \<Rightarrow> content_path f)"

section \<open>\<^verbatim>\<open>File.has_same_content_as\<close>\<close>

definition SMALL_FILE_THRESHOLD :: nat where
  "SMALL_FILE_THRESHOLD = 65536"

text \<open>
  Modelled from the spec: the decorator \<^verbatim>\<open>tool_required\<close> of \<^verbatim>\<open>diffoscope/__init__.py\<close>,
  which is not among the sources. By the spec, the unavailability of the tool is a hard
  failure of the decorated operation: the call raises \<open>RequiredToolNotFound\<close> for that
  command and the body does not run. \<open>tool_required w c\<close> is that check: \<open>Inr ()\<close> lets
  the body run.
\<close>

definition tool_required :: "world \<Rightarrow> string \<Rightarrow> exn + unit" where
  "tool_required w c = (if find_executable w c then Inr () else Inl (RequiredToolNotFound c))"

text \<open>
  \<^verbatim>\<open>has_same_content_as\<close> returns its result together with the command lines it ran
  through \<^verbatim>\<open>subprocess.call\<close>, in order. An exception raised by \<^verbatim>\<open>os.path.getsize\<close> or
  by reading a file propagates.
\<close>

definition cmp_cmdline :: "file_obj \<Rightarrow> file_obj \<Rightarrow> string list" where
  "cmp_cmdline self other = [''cmp'', ''-s'', path self, path other]"

definition call_cmp :: "world \<Rightarrow> file_obj \<Rightarrow> file_obj \<Rightarrow> (exn + bool) \<times> string list list" where
  "call_cmp w self other =
     (Inr (0 = subprocess_call w (cmp_cmdline self other)), [cmp_cmdline self other])"

definition has_same_content_as_body :: "world \<Rightarrow> file_obj \<Rightarrow> file_obj \<Rightarrow> (exn + bool) \<times> string list list" where
  "has_same_content_as_body w self other =
     (case getsize w (path self) of
        Inl e \<Rightarrow> (Inl e, [])
      | Inr my_size \<Rightarrow>
         (case getsize w (path other) of
            Inl e \<Rightarrow> (Inl e, [])
          | Inr other_size \<Rightarrow>
             (if my_size = other_size \<and> my_size \<le> SMALL_FILE_THRESHOLD then
                (case read_file w (path self) of
                   Inl e \<Rightarrow> (Inl e, [])
                 | Inr mine \<Rightarrow>
                    (case read_file w (path other) of
                       Inl e \<Rightarrow> (Inl e, [])
                     | Inr theirs \<Rightarrow>
                        (if mine = theirs then (Inr True, []) else call_cmp w self other)))
              else call_cmp w self other)))"

definition has_same_content_as :: "world \<Rightarrow> file_obj \<Rightarrow> file_obj \<Rightarrow> (exn + bool) \<times> string list list" where
  "has_same_content_as w self other =
     (case tool_required w ''cmp'' of
        Inl e \<Rightarrow> (Inl e, [])
      | Inr _ \<Rightarrow> has_same_content_as_body w self other)"

section \<open>The \<^verbatim>\<open>Difference\<close> tree\<close>

text \<open>
  Modelled from the spec: the constructor of \<^verbatim>\<open>Difference\<close> (\<^verbatim>\<open>diffoscope/difference.py\<close> is
  not among the sources). By the data model of the spec a node has two labels, an optional
  textual payload, an ordered sequence of comments and an ordered sequence of child nodes;
  a new node has no child, and the comments it is given, if any.
\<close>

definition new_Difference ::
  "world \<Rightarrow> string option \<Rightarrow> string \<Rightarrow> string \<Rightarrow> source_arg \<Rightarrow> string option \<Rightarrow> Difference" where
  "new_Difference w ud path1 path2 src comment =
     Difference ud (fst (source_labels w path1 path2 src)) (snd (source_labels w path1 path2 src))
       (case comment of None \<Rightarrow> [] | Some c \<Rightarrow> [c]) []"

text \<open>
  Modelled from the spec: \<^verbatim>\<open>Difference.add_comment\<close>, which is not among the sources: the
  comments of a node are an ordered sequence, and a new one goes to the end.
\<close>

definition add_comment :: "Difference \<Rightarrow> string \<Rightarrow> Difference" where
  "add_comment d c =
     Difference (unified_diff d) (source1 d) (source2 d) (comments d @ [c]) (details d)"

text \<open>
  Modelled from the spec: \<^verbatim>\<open>Difference.add_details\<close>, which is not among the sources: the
  details of a node are an ordered sequence of child nodes, and new ones go to the end, in
  the order given.
\<close>

definition add_details :: "Difference \<Rightarrow> Difference list \<Rightarrow> Difference" where
  "add_details d ds =
     Difference (unified_diff d) (source1 d) (source2 d) (comments d) (details d @ ds)"

text \<open>
  Modelled from the spec: \<^verbatim>\<open>Difference.get_reverse\<close>, which is not among the sources. The
  structural reverse swaps \<^verbatim>\<open>source1\<close> and \<^verbatim>\<open>source2\<close> and reverses every descendant the
  same way, in the same order; the comments stay.
\<close>

fun get_reverse :: "world \<Rightarrow> Difference \<Rightarrow> Difference" where
  "get_reverse w (Difference ud s1 s2 cs ds) =
     Difference (map_option (reverse_unified_diff w) ud) s2 s1 cs (map (get_reverse w) ds)"

text \<open>The node reached from a node by a list of child indices, if there is one.\<close>

fun subtree :: "Difference \<Rightarrow> nat list \<Rightarrow> Difference option" where
  "subtree d [] = Some d"
| "subtree d (i # is) = (if i < length (details d) then subtree (details d ! i) is else None)"

section \<open>The container view of a file: \<^verbatim>\<open>File.as_container\<close>, \<^verbatim>\<open>File.cleanup\<close>\<close>

text \<open>
  \<^verbatim>\<open>CONTAINER_CLASS(self)\<close>: a new container object, at the next free address. (The
  constructor, in \<^verbatim>\<open>diffoscope/comparators/utils.py\<close>, is taken to store its argument and
  not to raise.)
\<close>

definition new_container :: "string \<Rightarrow> nat \<Rightarrow> heap \<Rightarrow> nat \<times> heap" where
  "new_container cc self h =
     (length (containers h),
      h\<lparr>containers := containers h @ [\<lparr>container_class = cc, source = self\<rparr>]\<rparr>)"

definition set_as_container :: "nat \<Rightarrow> nat option \<Rightarrow> heap \<Rightarrow> heap" where
  "set_as_container self v h =
     h\<lparr>files := (files h)(self := (files h self)\<lparr>as_container_attr := v\<rparr>)\<rparr>"

definition as_container :: "nat \<Rightarrow> heap \<Rightarrow> (exn + nat option) \<times> heap" where
  "as_container self h =
     (case CONTAINER_CLASS (files h self) of
        None \<Rightarrow>
          (case other_file (files h self) of
             None \<Rightarrow> (Inr None, h)
           | Some None \<Rightarrow> (Inl (OtherError ''AttributeError''), h)
           | Some (Some other) \<Rightarrow>
               (case CONTAINER_CLASS (files h other) of
                  None \<Rightarrow> (Inl (OtherError ''AttributeError''), h)
                | Some cc \<Rightarrow> (Inr (Some (fst (new_container cc self h))), snd (new_container cc self h))))
      | Some cc \<Rightarrow>
          (let h1 = (case as_container_attr (files h self) of
                       None \<Rightarrow> set_as_container self (Some (fst (new_container cc self h)))
                                 (snd (new_container cc self h))
                     | Some c \<Rightarrow> h)
           in (Inr (as_container_attr (files h1 self)), h1)))"

text \<open>\<^verbatim>\<open>cleanup\<close> deletes the attribute when the object has it; \<^verbatim>\<open>__del__\<close> calls it.\<close>

definition cleanup :: "nat \<Rightarrow> heap \<Rightarrow> heap" where
  "cleanup self h =
     (case as_container_attr (files h self) of
        None \<Rightarrow> h
      | Some c \<Rightarrow> set_as_container self None h)"

text \<open>Accessing \<^verbatim>\<open>as_container\<close> \<open>n\<close> times in a row: the results, and the final store.\<close>

fun access_times :: "nat \<Rightarrow> nat \<Rightarrow> heap \<Rightarrow> (exn + nat option) list \<times> heap" where
  "access_times 0 self h = ([], h)"
| "access_times (Suc n) self h =
     (fst (as_container self h) # fst (access_times n self (snd (as_container self h))),
      snd (access_times n self (snd (as_container self h))))"

section \<open>Strings\<close>

text \<open>
  Python's \<^verbatim>\<open>str\<close> and \<^verbatim>\<open>bytes\<close> are both lists of characters here. \<open>NL\<close> is the newline,
  \<open>SQ\<close> the single quote and \<open>BQ\<close> the backquote; \<open>join\<close> is \<^verbatim>\<open>sep.join(xs)\<close>; \<open>str_int\<close> is
  what \<^verbatim>\<open>%d\<close> prints; \<open>indent\<close> is \<^verbatim>\<open>re.sub(r'^', '    ', s, flags=re.MULTILINE)\<close>, which
  puts four spaces at the start of the text and after every newline.
\<close>

definition NL :: char where
  "NL = CHR 0x0A"

definition SQ :: char where
  "SQ = CHR 0x27"

definition BQ :: char where
  "BQ = CHR 0x60"

fun join :: "string \<Rightarrow> string list \<Rightarrow> string" where
  "join sep [] = []"
| "join sep [x] = x"
| "join sep (x # y # ys) = x @ sep @ join sep (y # ys)"

fun digits :: "nat \<Rightarrow> string" where
  "digits n =
     (if n < 10 then [char_of (48 + n)] else digits (n div 10) @ [char_of (48 + n mod 10)])"

declare digits.simps [simp del]

definition str_int :: "int \<Rightarrow> string" where
  "str_int i = (if i < 0 then CHR ''-'' # digits (nat (- i)) else digits (nat i))"

definition indent :: "string \<Rightarrow> string" where
  "indent s = ''    '' @ concat (map (\<lambda>c. if c = NL then NL # ''    '' else [c]) s)"

section \<open>Byte comparison: \<^verbatim>\<open>hexdump_fallback\<close>, \<^verbatim>\<open>compare_binary_files\<close>\<close>

definition hex_digit :: "nat \<Rightarrow> char" where
  "hex_digit n = ''0123456789abcdef'' ! n"

definition hexlify :: "string \<Rightarrow> string" where
  "hexlify bs =
     concat (map (\<lambda>b. [hex_digit (of_char b div 16), hex_digit (of_char b mod 16)]) bs)"

text \<open>\<^verbatim>\<open>iter(lambda: f.read(n), b'')\<close>: the content in pieces of \<open>n\<close> bytes.\<close>

function chunks :: "nat \<Rightarrow> 'a list \<Rightarrow> 'a list list" where
  "chunks n xs = (if n = 0 \<or> xs = [] then [] else take n xs # chunks n (drop n xs))"
  by pat_completeness auto
termination
  by (relation "measure (\<lambda>(n, xs). length xs)") auto

declare chunks.simps [simp del]

definition hexdump_fallback :: "world \<Rightarrow> string \<Rightarrow> exn + string" where
  "hexdump_fallback w p =
     (case read_file w p of
        Inl e \<Rightarrow> Inl e
      | Inr content \<Rightarrow> Inr (concat (map (\<lambda>buf. hexlify buf @ [NL]) (chunks 32 content))))"

definition xxd_comment :: string where
  "xxd_comment = ''xxd not available in path. Falling back to Python hexlify.'' @ [NL]"

definition compare_binary_files ::
  "world \<Rightarrow> file_obj \<Rightarrow> file_obj \<Rightarrow> source_arg \<Rightarrow> exn + Difference option" where
  "compare_binary_files w file1 file2 src =
     (case from_command w ''Xxd'' (path file1) (path file2)
             (SourcePair (name file1) (name file2)) of
        Inl (RequiredToolNotFound c) \<Rightarrow>
          (case hexdump_fallback w (path file1) of
             Inl e \<Rightarrow> Inl e
           | Inr hexdump1 \<Rightarrow>
              (case hexdump_fallback w (path file2) of
                 Inl e \<Rightarrow> Inl e
               | Inr hexdump2 \<Rightarrow>
                  from_text w (Some hexdump1) (Some hexdump2) (name file1) (name file2) src
                    (Some xxd_comment)))
      | Inl e \<Rightarrow> Inl e
      | Inr d \<Rightarrow> Inr d)"

definition compare_bytes ::
  "world \<Rightarrow> file_obj \<Rightarrow> file_obj \<Rightarrow> source_arg \<Rightarrow> exn + Difference option" where
  "compare_bytes w self other src = compare_binary_files w self other src"

section \<open>\<^verbatim>\<open>File.compare\<close> and \<^verbatim>\<open>NonExistingFile.compare\<close>\<close>

text \<open>\<^verbatim>\<open>filter(None, xs)\<close> on a sequence of differences and \<^verbatim>\<open>None\<close>s.\<close>

definition filter_None :: "'a option list \<Rightarrow> 'a list" where
  "filter_None xs = List.map_filter (\<lambda>x. x) xs"

text \<open>
  The second half of \<^verbatim>\<open>_compare_using_details\<close>: when \<^verbatim>\<open>self.as_container\<close> is not \<^verbatim>\<open>None\<close>,
  \<^verbatim>\<open>self.as_container.compare(other.as_container)\<close> is evaluated (the receiver first, then the
  argument) and what it finds is appended.
\<close>

definition container_details ::
  "world \<Rightarrow> nat \<Rightarrow> nat \<Rightarrow> Difference list \<Rightarrow> heap \<Rightarrow> (exn + Difference list) \<times> heap" where
  "container_details w self other found h =
     (case as_container self h of
        (Inl e, h1) \<Rightarrow> (Inl e, h1)
      | (Inr None, h1) \<Rightarrow> (Inr found, h1)
      | (Inr (Some c0), h1) \<Rightarrow>
          (case as_container self h1 of
             (Inl e, h2) \<Rightarrow> (Inl e, h2)
           | (Inr None, h2) \<Rightarrow> (Inl (OtherError ''AttributeError''), h2)
           | (Inr (Some c), h2) \<Rightarrow>
               (case as_container other h2 of
                  (Inl e, h3) \<Rightarrow> (Inl e, h3)
                | (Inr oc, h3) \<Rightarrow>
                    (case container_compare w c oc of
                       Inl e \<Rightarrow> (Inl e, h3)
                     | Inr ds \<Rightarrow> (Inr (found @ filter_None ds), h3)))))"

definition compare_using_details ::
  "world \<Rightarrow> nat \<Rightarrow> nat \<Rightarrow> source_arg \<Rightarrow> heap \<Rightarrow> (exn + Difference option) \<times> heap" where
  "compare_using_details w self other src h =
     (case (if has_compare_details (files h self) then compare_details w self other src
            else Inr []) of
        Inl e \<Rightarrow> (Inl e, h)
      | Inr found \<Rightarrow>
          (case container_details w self other (filter_None found) h of
             (Inl e, h1) \<Rightarrow> (Inl e, h1)
           | (Inr ds, h1) \<Rightarrow>
               (if ds = [] then (Inr None, h1)
                else (Inr (Some (add_details
                         (new_Difference w None (name (files h1 self)) (name (files h1 other))
                            src None) ds)), h1))))"

text \<open>The condition \<^verbatim>\<open>hasattr(self, 'compare_details') or self.as_container\<close>.\<close>

definition details_supported :: "nat \<Rightarrow> heap \<Rightarrow> (exn + bool) \<times> heap" where
  "details_supported self h =
     (if has_compare_details (files h self) then (Inr True, h)
      else (case as_container self h of
              (Inl e, h1) \<Rightarrow> (Inl e, h1)
            | (Inr c, h1) \<Rightarrow> (Inr (c \<noteq> None), h1)))"

definition emptiness_comment :: string where
  "emptiness_comment = ''No differences found inside, yet data differs''"

text \<open>The body of the \<^verbatim>\<open>try\<close> statement of \<^verbatim>\<open>File.compare\<close>.\<close>

definition try_body ::
  "world \<Rightarrow> nat \<Rightarrow> nat \<Rightarrow> source_arg \<Rightarrow> heap \<Rightarrow> (exn + Difference option) \<times> heap" where
  "try_body w self other src h =
     (case compare_using_details w self other src h of
        (Inl e, h1) \<Rightarrow> (Inl e, h1)
      | (Inr (Some d), h1) \<Rightarrow> (Inr (Some d), h1)
      | (Inr None, h1) \<Rightarrow>
          (case compare_bytes w (files h1 self) (files h1 other) src of
             Inl e \<Rightarrow> (Inl e, h1)
           | Inr None \<Rightarrow> (Inr None, h1)
           | Inr (Some d) \<Rightarrow> (Inr (Some (add_comment d emptiness_comment)), h1)))"

text \<open>
  The comments of the two \<^verbatim>\<open>except\<close> clauses. \<^verbatim>\<open>if e.output\<close> and \<^verbatim>\<open>if package\<close> are false
  for \<^verbatim>\<open>None\<close> and for the empty string.
\<close>

definition tool_failure_comment :: "world \<Rightarrow> string list \<Rightarrow> int \<Rightarrow> string option \<Rightarrow> string" where
  "tool_failure_comment w c rc out =
     ''Command '' @ [BQ] @ join '' '' c @ [BQ] @ '' exited with '' @ str_int rc
       @ ''. Output:'' @ [NL]
       @ (case out of
            None \<Rightarrow> ''<none>''
          | Some b \<Rightarrow> if b = [] then ''<none>'' else indent (decode_utf8_replace w b))"

definition tool_missing_comment :: "string \<Rightarrow> string" where
  "tool_missing_comment c =
     [SQ] @ c @ [SQ] @ '' not available in path. Falling back to binary comparison.''"

definition install_comment :: "string \<Rightarrow> string" where
  "install_comment p = ''Install '' @ [SQ] @ p @ [SQ] @ '' to get a better output.''"

definition except_handler ::
  "world \<Rightarrow> exn \<Rightarrow> file_obj \<Rightarrow> file_obj \<Rightarrow> source_arg \<Rightarrow> exn + Difference option" where
  "except_handler w e self other src =
     (case e of
        CalledProcessError c rc out \<Rightarrow>
          (case compare_bytes w self other src of
             Inl e' \<Rightarrow> Inl e'
           | Inr None \<Rightarrow> Inr None
           | Inr (Some d) \<Rightarrow> Inr (Some (add_comment d (tool_failure_comment w c rc out))))
      | RequiredToolNotFound c \<Rightarrow>
          (case compare_bytes w self other src of
             Inl e' \<Rightarrow> Inl e'
           | Inr None \<Rightarrow> Inr None
           | Inr (Some d) \<Rightarrow>
               Inr (Some (case get_package w c of
                            None \<Rightarrow> add_comment d (tool_missing_comment c)
                          | Some p \<Rightarrow>
                              if p = [] then add_comment d (tool_missing_comment c)
                              else add_comment (add_comment d (tool_missing_comment c))
                                     (install_comment p))))
      | OtherError x \<Rightarrow> Inl (OtherError x))"

definition File_compare ::
  "world \<Rightarrow> nat \<Rightarrow> nat \<Rightarrow> source_arg \<Rightarrow> heap \<Rightarrow> (exn + Difference option) \<times> heap" where
  "File_compare w self other src h =
     (case details_supported self h of
        (Inl e, h1) \<Rightarrow> (Inl e, h1)
      | (Inr False, h1) \<Rightarrow> (compare_bytes w (files h1 self) (files h1 other) src, h1)
      | (Inr True, h1) \<Rightarrow>
          (case try_body w self other src h1 of
             (Inl e, h2) \<Rightarrow> (except_handler w e (files h2 self) (files h2 other) src, h2)
           | (Inr r, h2) \<Rightarrow> (Inr r, h2)))"

text \<open>
  The \<^verbatim>\<open>compare\<close> method of an object that is not a \<^verbatim>\<open>NonExistingFile\<close>: \<^verbatim>\<open>File.compare\<close>,
  unless its class specializes \<^verbatim>\<open>compare\<close> directly.
\<close>

definition real_compare ::
  "world \<Rightarrow> nat \<Rightarrow> nat \<Rightarrow> source_arg \<Rightarrow> heap \<Rightarrow> (exn + Difference option) \<times> heap" where
  "real_compare w self other src h =
     (if overrides_compare (files h self) then (compare_override w self other src, h)
      else File_compare w self other src h)"

definition both_missing_comment :: string where
  "both_missing_comment = ''Trying to compare two non-existing files.''"

definition NonExistingFile_compare ::
  "world \<Rightarrow> nat \<Rightarrow> nat \<Rightarrow> source_arg \<Rightarrow> heap \<Rightarrow> (exn + Difference option) \<times> heap" where
  "NonExistingFile_compare w self other src h =
     (if klass (files h other) = NonExistingFile then
        (Inr (Some (new_Difference w None (name (files h self)) (name (files h other)) NoSource
                      (Some both_missing_comment))), h)
      else
        (case real_compare w other self src h of
           (Inl e, h1) \<Rightarrow> (Inl e, h1)
         | (Inr None, h1) \<Rightarrow> (Inr None, h1)
         | (Inr (Some backward_diff), h1) \<Rightarrow> (Inr (Some (get_reverse w backward_diff)), h1)))"

section \<open>Directories: \<^verbatim>\<open>list_files\<close>, \<^verbatim>\<open>compare_meta\<close>, \<^verbatim>\<open>FilesystemDirectory.compare\<close>\<close>





text \<open>
  The white space of \<^verbatim>\<open>str.split()\<close> and of \<^verbatim>\<open>\s\<close>, among the ASCII characters: space,
  \<^verbatim>\<open>\t \n \v \f \r\<close> and the four separators \<^verbatim>\<open>\x1c\<close> to \<^verbatim>\<open>\x1f\<close>. \<open>first_word\<close> is
  \<^verbatim>\<open>output.split()[0]\<close>, \<open>None\<close> when the list is empty and the index raises.
\<close>

definition is_space :: "char \<Rightarrow> bool" where
  "is_space c = (of_char c \<in> {9, 10, 11, 12, 13, 28, 29, 30, 31, 32 :: nat})"













section \<open>\<^verbatim>\<open>Stat.filter\<close>\<close>

text \<open>
  The six substitutions of \<^verbatim>\<open>Stat.filter\<close>. A matcher gives the length of the match of its
  pattern at the start of a text, if there is one; none of the patterns matches the empty
  text. The character classes are followed by a character outside the class, so the
  greedy match is the only one. \<open>match_to_end\<close> is \<^verbatim>\<open>.*$\<close>: the rest of the line, which has to
  end the text or to be followed by its last newline.
\<close>

definition is_digit :: "char \<Rightarrow> bool" where
  "is_digit c = (CHR ''0'' \<le> c \<and> c \<le> CHR ''9'')"

definition is_hex :: "char \<Rightarrow> bool" where
  "is_hex c = (is_digit c \<or> (CHR ''a'' \<le> c \<and> c \<le> CHR ''f''))"

definition match_to_end :: "string \<Rightarrow> nat option" where
  "match_to_end s =
     (let n = length (takeWhile (\<lambda>c. c \<noteq> NL) s) in
      if drop n s = [] \<or> drop n s = [NL] then Some n else None)"

definition match_FILE_RE :: "string \<Rightarrow> nat option" where
  "match_FILE_RE s =
     (let k = length (takeWhile is_space s) in
      if take 5 (drop k s) = ''File:''
      then map_option (\<lambda>n. k + 5 + n) (match_to_end (drop (k + 5) s))
      else None)"

definition match_DEVICE_RE :: "string \<Rightarrow> nat option" where
  "match_DEVICE_RE s =
     (let n1 = length (takeWhile is_hex (drop 8 s));
          n2 = length (takeWhile is_digit (drop (8 + n1 + 2) s)) in
      if take 8 s = ''Device: '' \<and> 0 < n1 \<and> take 2 (drop (8 + n1) s) = ''h/'' \<and> 0 < n2
         \<and> take 1 (drop (8 + n1 + 2 + n2) s) = ''d''
      then Some (8 + n1 + 2 + n2 + 1) else None)"

definition match_number_field :: "string \<Rightarrow> string \<Rightarrow> nat option" where
  "match_number_field label s =
     (let n = length (takeWhile is_digit (drop (length label) s)) in
      if take (length label) s = label \<and> 0 < n then Some (length label + n) else None)"

definition match_INODE_RE :: "string \<Rightarrow> nat option" where
  "match_INODE_RE s = match_number_field ''Inode: '' s"

definition match_LINKS_RE :: "string \<Rightarrow> nat option" where
  "match_LINKS_RE s = match_number_field ''Links: '' s"

definition match_date :: "string \<Rightarrow> bool" where
  "match_date s =
     (10 \<le> length s \<and> list_all is_digit (take 4 s) \<and> s ! 4 = CHR ''-''
      \<and> list_all is_digit (take 2 (drop 5 s)) \<and> s ! 7 = CHR ''-''
      \<and> list_all is_digit (take 2 (drop 8 s)))"

definition match_time_line :: "string \<Rightarrow> string \<Rightarrow> nat option" where
  "match_time_line label s =
     (if take (length label) s = label \<and> match_date (drop (length label) s)
      then map_option (\<lambda>n. length label + 10 + n) (match_to_end (drop (length label + 10) s))
      else None)"

definition match_ACCESS_TIME_RE :: "string \<Rightarrow> nat option" where
  "match_ACCESS_TIME_RE s = match_time_line ''Access: '' s"

definition match_CHANGE_TIME_RE :: "string \<Rightarrow> nat option" where
  "match_CHANGE_TIME_RE s = match_time_line ''Change: '' s"

text \<open>
  \<^verbatim>\<open>pattern.sub('', line)\<close>. A pattern that starts with \<^verbatim>\<open>^\<close> can only match at the start of
  the line; the others are tried at every position from left to right, and the search
  goes on after a match. \<open>sub_from m k s\<close> still has \<open>k\<close> characters of a match to drop.
\<close>

definition sub_anchored :: "(string \<Rightarrow> nat option) \<Rightarrow> string \<Rightarrow> string" where
  "sub_anchored m s = (case m s of None \<Rightarrow> s | Some n \<Rightarrow> drop n s)"

fun sub_from :: "(string \<Rightarrow> nat option) \<Rightarrow> nat \<Rightarrow> string \<Rightarrow> string" where
  "sub_from m k [] = []"
| "sub_from m k (c # cs) =
     (if 0 < k then sub_from m (k - 1) cs
      else (case m (c # cs) of
              None \<Rightarrow> c # sub_from m 0 cs
            | Some n \<Rightarrow> if 0 < n then sub_from m (n - 1) cs else c # sub_from m 0 cs))"

definition sub_all :: "(string \<Rightarrow> nat option) \<Rightarrow> string \<Rightarrow> string" where
  "sub_all m s = sub_from m 0 s"

text \<open>
  \<^verbatim>\<open>Stat.filter\<close> on a line of ASCII bytes, for which decoding and encoding change nothing.
  A line with other bytes is outside this model (the patterns then see the code points of
  the decoded line, or decoding raises): the result is \<open>None\<close>.
\<close>

definition Stat_filter :: "string \<Rightarrow> string option" where
  "Stat_filter line =
     (if list_all (\<lambda>c. of_char c < (128 :: nat)) line then
        Some (sub_anchored match_CHANGE_TIME_RE
               (sub_anchored match_ACCESS_TIME_RE
                 (sub_all match_LINKS_RE
                   (sub_all match_INODE_RE
                     (sub_all match_DEVICE_RE
                       (sub_anchored match_FILE_RE line))))))
      else None)"

section \<open>Example worlds\<close>

text \<open>
  A small world for the concrete instances below: three files, \<^verbatim>\<open>/a\<close> and \<^verbatim>\<open>/c\<close> holding
  \<^verbatim>\<open>foo\<close> and \<^verbatim>\<open>/b\<close> holding \<^verbatim>\<open>bar\<close> (every other path is an empty file); every tool is
  installed; \<^verbatim>\<open>cmp -s\<close> exits with 0 on files of equal content and with 1 otherwise;
  \<^verbatim>\<open>lsattr\<close> prints the same attributes for every file; no collaborator finds a difference
  or raises.
\<close>

definition example_fs :: "string \<Rightarrow> string" where
  "example_fs p = (if p = ''/a'' \<or> p = ''/c'' then ''foo'' else if p = ''/b'' then ''bar'' else [])"

definition plain_labels :: "string \<Rightarrow> string \<Rightarrow> source_arg \<Rightarrow> string \<times> string" where
  "plain_labels p1 p2 src =
     (case src of NoSource \<Rightarrow> (p1, p2) | Source s \<Rightarrow> (s, s) | SourcePair a b \<Rightarrow> (a, b))"

definition quiet_world :: world where
  "quiet_world =
     \<lparr>find_executable = (\<lambda>c. True),
      getsize = (\<lambda>p. Inr (length (example_fs p))),
      read_file = (\<lambda>p. Inr (example_fs p)),
      subprocess_call = (\<lambda>c. if length c = 4 \<and> example_fs (c ! 2) = example_fs (c ! 3) then 0 else 1),
      check_output = (\<lambda>c. Inr ''--------------e----- file''),
      realpath = (\<lambda>p. p),
      walk = (\<lambda>p. []),
      from_command = (\<lambda>c p1 p2 src. Inr None),
      from_text = (\<lambda>t1 t2 p1 p2 src c. Inr None),
      source_labels = plain_labels,
      reverse_unified_diff = (\<lambda>u. u),
      get_package = (\<lambda>c. None),
      decode_utf8_replace = (\<lambda>b. b),
      compare_details = (\<lambda>a b src. Inr []),
      container_compare = (\<lambda>a b. Inr []),
      compare_override = (\<lambda>a b src. Inr None),
      compare_files = (\<lambda>a b src. Inr None)\<rparr>"

definition filesystem_file :: "string \<Rightarrow> file_obj" where
  "filesystem_file p =
     \<lparr>klass = RealFile, CONTAINER_CLASS = None, has_compare_details = False,
      overrides_compare = False, name = p, content_path = p, other_file = None,
      as_container_attr = None\<rparr>"

text \<open>
  A store of three file objects: at address 0 a file of a class that declares a container
  class and \<^verbatim>\<open>compare_details\<close> (an archive), at address 1 a \<^verbatim>\<open>NonExistingFile\<close> whose
  counterpart is the object at address 0, at address 3 a \<^verbatim>\<open>NonExistingFile\<close> whose
  counterpart is the object at address 2, and a plain \<^verbatim>\<open>FilesystemFile\<close> everywhere else.
  No container has been built yet.
\<close>

definition archive_file :: "string \<Rightarrow> file_obj" where
  "archive_file p =
     \<lparr>klass = RealFile, CONTAINER_CLASS = Some ''ZipContainer'', has_compare_details = True,
      overrides_compare = False, name = p, content_path = p, other_file = None,
      as_container_attr = None\<rparr>"

definition missing_file :: "string \<Rightarrow> nat \<Rightarrow> file_obj" where
  "missing_file p counterpart =
     \<lparr>klass = NonExistingFile, CONTAINER_CLASS = None, has_compare_details = False,
      overrides_compare = False, name = p, content_path = p,
      other_file = Some (Some counterpart), as_container_attr = None\<rparr>"

definition example_heap :: heap where
  "example_heap =
     \<lparr>files = (\<lambda>a. if a = 0 then archive_file ''/a''
                   else if a = 1 then missing_file ''/b'' 0
                   else if a = 3 then missing_file ''/d'' 2
                   else filesystem_file ''/c''),
      containers = []\<rparr>"

text \<open>
  Variants of the quiet world. In \<open>failing_world\<close> the format-specific comparison raises
  \<open>CalledProcessError\<close> (\<^verbatim>\<open>zipinfo\<close> exits with 9) and \<^verbatim>\<open>xxd\<close> works: the byte comparison
  finds a difference. In \<open>missing_world\<close> the format-specific comparison raises
  \<open>RequiredToolNotFound\<close> for \<^verbatim>\<open>zipinfo\<close>, whose package is known, and \<^verbatim>\<open>xxd\<close> works. In
  \<open>toolless_world\<close> no tool at all is installed: neither \<^verbatim>\<open>zipinfo\<close>, nor \<^verbatim>\<open>xxd\<close>, nor the
  \<^verbatim>\<open>diff\<close> that \<^verbatim>\<open>Difference.from_text\<close> needs.
\<close>

definition hex_difference :: "string \<Rightarrow> string \<Rightarrow> source_arg \<Rightarrow> Difference" where
  "hex_difference p1 p2 src =
     Difference (Some ''@@ -1 +1 @@'') (fst (plain_labels p1 p2 src)) (snd (plain_labels p1 p2 src))
       [] []"

definition failing_world :: world where
  "failing_world =
     quiet_world
       \<lparr>from_command := (\<lambda>c p1 p2 src. Inr (Some (hex_difference p1 p2 src))),
        compare_details :=
          (\<lambda>a b src. Inl (CalledProcessError [''zipinfo'', ''/a''] 9 (Some ''bad zipfile'')))\<rparr>"

definition missing_world :: world where
  "missing_world =
     quiet_world
       \<lparr>find_executable := (\<lambda>c. c \<noteq> ''zipinfo''),
        from_command := (\<lambda>c p1 p2 src. Inr (Some (hex_difference p1 p2 src))),
        get_package := (\<lambda>c. if c = ''zipinfo'' then Some ''unzip'' else None),
        compare_details := (\<lambda>a b src. Inl (RequiredToolNotFound ''zipinfo''))\<rparr>"

definition toolless_world :: world where
  "toolless_world =
     quiet_world
       \<lparr>find_executable := (\<lambda>c. False),
        from_command := (\<lambda>c p1 p2 src. Inl (RequiredToolNotFound ''xxd'')),
        from_text := (\<lambda>t1 t2 p1 p2 src c. Inl (RequiredToolNotFound ''diff'')),
        compare_details := (\<lambda>a b src. Inl (RequiredToolNotFound ''zipinfo''))\<rparr>"

text \<open>
  \<open>silent_world\<close>: the format-specific comparison finds nothing, and \<^verbatim>\<open>xxd\<close> shows that the
  bytes differ.
\<close>

definition silent_world :: world where
  "silent_world =
     quiet_world\<lparr>from_command := (\<lambda>c p1 p2 src. Inr (Some (hex_difference p1 p2 src)))\<rparr>"

text \<open>The example store after the object at address 0 has built and cached its container.\<close>

definition cached_heap :: heap where
  "cached_heap =
     set_as_container 0 (Some 0)
       (example_heap\<lparr>containers := [\<lparr>container_class = ''ZipContainer'', source = 0\<rparr>]\<rparr>)"

text \<open>
  \<open>detail_world\<close>: the format-specific comparison finds one difference, in the listings of
  the two archives, and nothing raises.
\<close>

definition listing_difference :: Difference where
  "listing_difference = Difference (Some ''@@ -1 +0,0 @@'') ''zipinfo /a'' ''zipinfo /b'' [] []"

definition detail_world :: world where
  "detail_world = quiet_world\<lparr>compare_details := (\<lambda>a b src. Inr [Some listing_difference])\<rparr>"

text \<open>
  The third line that \<^verbatim>\<open>stat\<close> prints for a file, from its format
  \<^verbatim>\<open>Device: %Dh/%dd\tInode: %-10i  Links: %h\<close>: the inode number is padded with spaces to ten
  characters. The other lines of the two outputs compared below are equal, and so are the
  device and the number of links in this one.
\<close>

definition TAB :: char where
  "TAB = CHR 0x09"

definition stat_line :: "string \<Rightarrow> string" where
  "stat_line padded_inode =
     ''Device: 801h/2049d'' @ [TAB] @ ''Inode: '' @ padded_inode @ ''  Links: 1'' @ [NL]"




section \<open>Properties of \<^verbatim>\<open>has_same_content_as\<close>\<close>

lemma path_filesystem_file: "path (filesystem_file p) = p"
  by (simp add: path_def filesystem_file_def)

text \<open>
  C9. \<^verbatim>\<open>has_same_content_as\<close> requires \<^verbatim>\<open>cmp\<close> unconditionally: without the tool it
  raises \<open>RequiredToolNotFound\<close> for every pair of files and runs nothing, also for two
  small files of equal size that it could compare in memory. With the tool, the
  comparison in memory decides the equal outcome only: when two files of equal size, at
  most 65536 bytes, differ in memory, \<^verbatim>\<open>cmp -s\<close> is still run and its exit status is the
  result.
\<close>

theorem has_same_content_as_requires_cmp:
  "(\<not> find_executable w ''cmp'' \<longrightarrow>
      has_same_content_as w self other = (Inl (RequiredToolNotFound ''cmp''), []))
   \<and> (find_executable w ''cmp'' \<and> getsize w (path self) = Inr n \<and> getsize w (path other) = Inr n
        \<and> n \<le> 65536 \<and> read_file w (path self) = Inr a \<and> read_file w (path other) = Inr b
        \<and> a \<noteq> b \<longrightarrow>
      has_same_content_as w self other =
        (Inr (subprocess_call w [''cmp'', ''-s'', path self, path other] = 0),
         [[''cmp'', ''-s'', path self, path other]]))"
  by (auto simp: has_same_content_as_def has_same_content_as_body_def tool_required_def
      call_cmp_def cmp_cmdline_def SMALL_FILE_THRESHOLD_def)

theorem has_same_content_as_requires_cmp_witness:
  "has_same_content_as (quiet_world\<lparr>find_executable := (\<lambda>c. False)\<rparr>)
     (filesystem_file ''/a'') (filesystem_file ''/c'') = (Inl (RequiredToolNotFound ''cmp''), [])
   \<and> has_same_content_as quiet_world (filesystem_file ''/a'') (filesystem_file ''/b'')
       = (Inr False, [[''cmp'', ''-s'', ''/a'', ''/b'']])"
proof -
  have missing: "\<not> find_executable (quiet_world\<lparr>find_executable := (\<lambda>c. False)\<rparr>) ''cmp''"
    by simp
  have small: "find_executable quiet_world ''cmp''
     \<and> getsize quiet_world (path (filesystem_file ''/a'')) = Inr 3
     \<and> getsize quiet_world (path (filesystem_file ''/b'')) = Inr 3 \<and> (3::nat) \<le> 65536
     \<and> read_file quiet_world (path (filesystem_file ''/a'')) = Inr ''foo''
     \<and> read_file quiet_world (path (filesystem_file ''/b'')) = Inr ''bar'' \<and> ''foo'' \<noteq> ''bar''"
    by (simp add: quiet_world_def path_filesystem_file example_fs_def)
  have status: "subprocess_call quiet_world [''cmp'', ''-s'', ''/a'', ''/b''] = 1"
    by (simp add: quiet_world_def example_fs_def)
  from has_same_content_as_requires_cmp
         [where w = "quiet_world\<lparr>find_executable := (\<lambda>c. False)\<rparr>"
            and self = "filesystem_file ''/a''" and other = "filesystem_file ''/c''"] missing
  have first: "has_same_content_as (quiet_world\<lparr>find_executable := (\<lambda>c. False)\<rparr>)
     (filesystem_file ''/a'') (filesystem_file ''/c'') = (Inl (RequiredToolNotFound ''cmp''), [])"
    by blast
  from has_same_content_as_requires_cmp
         [where w = quiet_world and self = "filesystem_file ''/a''" and n = 3
            and other = "filesystem_file ''/b''" and a = "''foo''" and b = "''bar''"] small
  have "has_same_content_as quiet_world (filesystem_file ''/a'') (filesystem_file ''/b'') =
        (Inr (subprocess_call quiet_world
                [''cmp'', ''-s'', path (filesystem_file ''/a''), path (filesystem_file ''/b'')] = 0),
         [[''cmp'', ''-s'', path (filesystem_file ''/a''), path (filesystem_file ''/b'')]])"
    by blast
  then have second: "has_same_content_as quiet_world (filesystem_file ''/a'') (filesystem_file ''/b'')
       = (Inr False, [[''cmp'', ''-s'', ''/a'', ''/b'']])"
    using status by (simp add: path_filesystem_file)
  from first second show ?thesis by simp
qed



section \<open>Properties of the container view\<close>

lemma as_container_cached:
  "CONTAINER_CLASS (files h self) = Some cc \<Longrightarrow> as_container_attr (files h self) = Some c \<Longrightarrow>
     as_container self h = (Inr (Some c), h)"
  by (simp add: as_container_def)

lemma as_container_first:
  "CONTAINER_CLASS (files h self) = Some cc \<Longrightarrow> as_container_attr (files h self) = None \<Longrightarrow>
     as_container self h =
       (Inr (Some (length (containers h))),
        set_as_container self (Some (length (containers h)))
          (h\<lparr>containers := containers h @ [\<lparr>container_class = cc, source = self\<rparr>]\<rparr>))"
  by (simp add: as_container_def new_container_def set_as_container_def)

lemma access_times_cached:
  "CONTAINER_CLASS (files h self) = Some cc \<Longrightarrow> as_container_attr (files h self) = Some c \<Longrightarrow>
     access_times n self h = (replicate n (Inr (Some c)), h)"
  by (induction n) (simp_all add: as_container_cached)

lemma access_times_fresh:
  "CONTAINER_CLASS (files h self) = None \<Longrightarrow> other_file (files h self) = Some (Some other) \<Longrightarrow>
   CONTAINER_CLASS (files h other) = Some cc \<Longrightarrow>
     access_times n self h =
       (map (\<lambda>i. Inr (Some (length (containers h) + i))) [0..<n],
        h\<lparr>containers := containers h @ replicate n \<lparr>container_class = cc, source = self\<rparr>\<rparr>)"
proof (induction n arbitrary: h)
  case 0
  then show ?case by simp
next
  case (Suc n)
  let ?h1 = "h\<lparr>containers := containers h @ [\<lparr>container_class = cc, source = self\<rparr>]\<rparr>"
  from Suc.prems have step: "as_container self h = (Inr (Some (length (containers h))), ?h1)"
    by (simp add: as_container_def new_container_def)
  have "access_times n self ?h1 =
       (map (\<lambda>i. Inr (Some (length (containers ?h1) + i))) [0..<n],
        ?h1\<lparr>containers := containers ?h1 @ replicate n \<lparr>container_class = cc, source = self\<rparr>\<rparr>)"
    using Suc.prems by (intro Suc.IH) simp_all
  with step show ?case
    by (simp add: map_upt_Suc replicate_app_Cons_same del: upt_Suc)
qed

lemma cleanup_idem: "cleanup self (cleanup self h) = cleanup self h"
  by (simp add: cleanup_def set_as_container_def split: option.splits)

lemma cleanup_attr: "as_container_attr (files (cleanup self h) self) = None"
  by (simp add: cleanup_def set_as_container_def split: option.splits)

lemma cleanup_keeps:
  "containers (cleanup self h) = containers h
   \<and> CONTAINER_CLASS (files (cleanup self h) self) = CONTAINER_CLASS (files h self)"
  by (simp add: cleanup_def set_as_container_def split: option.splits)

lemma access_times_cached_class:
  assumes cc: "CONTAINER_CLASS (files h self) = Some cc"
  shows "access_times (Suc n) self h =
      (replicate (Suc n)
         (Inr (Some (case as_container_attr (files h self) of
                       None \<Rightarrow> length (containers h) | Some c \<Rightarrow> c))),
       snd (as_container self h))"
proof (cases "as_container_attr (files h self)")
  case None
  let ?h1 = "set_as_container self (Some (length (containers h)))
          (h\<lparr>containers := containers h @ [\<lparr>container_class = cc, source = self\<rparr>]\<rparr>)"
  have first: "as_container self h = (Inr (Some (length (containers h))), ?h1)"
    using cc None by (rule as_container_first)
  have "CONTAINER_CLASS (files ?h1 self) = Some cc"
    and "as_container_attr (files ?h1 self) = Some (length (containers h))"
    using cc by (simp_all add: set_as_container_def)
  then have "access_times n self ?h1 = (replicate n (Inr (Some (length (containers h)))), ?h1)"
    by (rule access_times_cached)
  with first None show ?thesis by simp
next
  case (Some c)
  with cc have "as_container self h = (Inr (Some c), h)"
    and "access_times n self h = (replicate n (Inr (Some c)), h)"
    by (simp_all add: as_container_cached access_times_cached)
  with Some show ?thesis by simp
qed

text \<open>
  C8, as the code has it. For a file object whose class declares a container class, the
  container view is built at the first access, stored in the object, and returned by
  every later access: any number of accesses in a row return one and the same container,
  and build one container if none was cached and none otherwise; after \<^verbatim>\<open>cleanup\<close> the
  next access builds a new one. A file object whose class declares no container class but
  which has a counterpart (a \<^verbatim>\<open>NonExistingFile\<close>) gets a new container of the counterpart's
  container class at every access, and none is cached. \<^verbatim>\<open>cleanup\<close> is idempotent, raises
  nothing, leaves the object without a cached view and destroys no container.
\<close>

theorem as_container_lazy_cached:
  "(CONTAINER_CLASS (files h self) = Some cc \<longrightarrow>
      fst (access_times (Suc n) self h) =
        replicate (Suc n)
          (Inr (Some (case as_container_attr (files h self) of
                        None \<Rightarrow> length (containers h) | Some c \<Rightarrow> c)))
      \<and> containers (snd (access_times (Suc n) self h)) =
          (case as_container_attr (files h self) of
             None \<Rightarrow> containers h @ [\<lparr>container_class = cc, source = self\<rparr>]
           | Some c \<Rightarrow> containers h)
      \<and> as_container_attr (files (snd (access_times (Suc n) self h)) self) =
          Some (case as_container_attr (files h self) of
                  None \<Rightarrow> length (containers h) | Some c \<Rightarrow> c)
      \<and> fst (as_container self (cleanup self h)) = Inr (Some (length (containers h))))
   \<and> (CONTAINER_CLASS (files h self) = None \<and> other_file (files h self) = Some (Some other)
        \<and> CONTAINER_CLASS (files h other) = Some cc \<longrightarrow>
      access_times n self h =
        (map (\<lambda>i. Inr (Some (length (containers h) + i))) [0..<n],
         h\<lparr>containers := containers h @ replicate n \<lparr>container_class = cc, source = self\<rparr>\<rparr>))
   \<and> cleanup self (cleanup self h) = cleanup self h
   \<and> as_container_attr (files (cleanup self h) self) = None
   \<and> containers (cleanup self h) = containers h"
proof -
  have cached: "fst (access_times (Suc n) self h) =
        replicate (Suc n)
          (Inr (Some (case as_container_attr (files h self) of
                        None \<Rightarrow> length (containers h) | Some c \<Rightarrow> c)))
      \<and> containers (snd (access_times (Suc n) self h)) =
          (case as_container_attr (files h self) of
             None \<Rightarrow> containers h @ [\<lparr>container_class = cc, source = self\<rparr>]
           | Some c \<Rightarrow> containers h)
      \<and> as_container_attr (files (snd (access_times (Suc n) self h)) self) =
          Some (case as_container_attr (files h self) of
                  None \<Rightarrow> length (containers h) | Some c \<Rightarrow> c)
      \<and> fst (as_container self (cleanup self h)) = Inr (Some (length (containers h)))"
    if cc: "CONTAINER_CLASS (files h self) = Some cc"
  proof -
    have after: "fst (as_container self (cleanup self h)) = Inr (Some (length (containers h)))"
      using as_container_first [of "cleanup self h" self cc] cc
      by (simp add: cleanup_attr cleanup_keeps)
    show ?thesis
      unfolding access_times_cached_class [OF cc]
      using cc after
      by (cases "as_container_attr (files h self)")
         (simp_all add: as_container_first as_container_cached set_as_container_def)
  qed
  have fresh: "access_times n self h =
        (map (\<lambda>i. Inr (Some (length (containers h) + i))) [0..<n],
         h\<lparr>containers := containers h @ replicate n \<lparr>container_class = cc, source = self\<rparr>\<rparr>)"
    if "CONTAINER_CLASS (files h self) = None \<and> other_file (files h self) = Some (Some other)
        \<and> CONTAINER_CLASS (files h other) = Some cc"
    using that access_times_fresh [of h self other cc n] by blast
  from cached fresh show ?thesis
    by (simp only: cleanup_idem cleanup_attr cleanup_keeps) blast
qed

lemma example_heap_files:
  "CONTAINER_CLASS (files example_heap 0) = Some ''ZipContainer''"
  "as_container_attr (files example_heap 0) = None"
  "CONTAINER_CLASS (files example_heap 1) = None"
  "other_file (files example_heap 1) = Some (Some 0)"
  "as_container_attr (files example_heap 1) = None"
  "containers example_heap = []"
  by (simp_all add: example_heap_def archive_file_def missing_file_def)

theorem as_container_lazy_cached_witness:
  "fst (access_times (Suc 2) 0 example_heap) = [Inr (Some 0), Inr (Some 0), Inr (Some 0)]
   \<and> containers (snd (access_times (Suc 2) 0 example_heap)) =
       [\<lparr>container_class = ''ZipContainer'', source = 0\<rparr>]
   \<and> as_container_attr (files (snd (access_times (Suc 2) 0 example_heap)) 0) = Some 0
   \<and> fst (access_times (Suc (Suc 0)) 1 example_heap) = [Inr (Some 0), Inr (Some 1)]
   \<and> cleanup 0 (cleanup 0 example_heap) = cleanup 0 example_heap"
proof -
  note r = as_container_lazy_cached
             [where h = example_heap and self = 0 and cc = "''ZipContainer''" and n = 2]
  note own = r [THEN conjunct1, THEN mp, OF example_heap_files(1)]
  have missing: "CONTAINER_CLASS (files example_heap 1) = None
      \<and> other_file (files example_heap 1) = Some (Some 0)
      \<and> CONTAINER_CLASS (files example_heap 0) = Some ''ZipContainer''"
    by (intro conjI example_heap_files)
  note fresh = as_container_lazy_cached
             [where h = example_heap and self = 1 and other = 0 and cc = "''ZipContainer''"
                and n = "Suc (Suc 0)", THEN conjunct2, THEN conjunct1, THEN mp, OF missing]
  from own [THEN conjunct1]
  have a: "fst (access_times (Suc 2) 0 example_heap) = [Inr (Some 0), Inr (Some 0), Inr (Some 0)]"
    by (simp add: example_heap_files numeral_2_eq_2)
  from own [THEN conjunct2, THEN conjunct1]
  have b: "containers (snd (access_times (Suc 2) 0 example_heap)) =
       [\<lparr>container_class = ''ZipContainer'', source = 0\<rparr>]"
    by (simp add: example_heap_files)
  from own [THEN conjunct2, THEN conjunct2, THEN conjunct1]
  have c: "as_container_attr (files (snd (access_times (Suc 2) 0 example_heap)) 0) = Some 0"
    by (simp add: example_heap_files)
  from fresh
  have d: "fst (access_times (Suc (Suc 0)) 1 example_heap) = [Inr (Some 0), Inr (Some 1)]"
    by (simp add: example_heap_files)
  from r [THEN conjunct2, THEN conjunct2, THEN conjunct1]
  have e: "cleanup 0 (cleanup 0 example_heap) = cleanup 0 example_heap" .
  from a b c d e show ?thesis by simp
qed

theorem as_container_not_cached_counterexample:
  "fst (access_times (Suc (Suc 0)) 1 example_heap) = [Inr (Some 0), Inr (Some 1)]
   \<and> containers (snd (access_times (Suc (Suc 0)) 1 example_heap)) =
       [\<lparr>container_class = ''ZipContainer'', source = 1\<rparr>,
        \<lparr>container_class = ''ZipContainer'', source = 1\<rparr>]
   \<and> as_container_attr (files (snd (access_times (Suc (Suc 0)) 1 example_heap)) 1) = None"
  by (simp add: as_container_def new_container_def example_heap_def archive_file_def
      missing_file_def)

section \<open>Properties of \<^verbatim>\<open>File.compare\<close>\<close>

lemma File_compare_supported:
  "details_supported self h = (Inr True, h1) \<Longrightarrow>
     File_compare w self other src h =
       (case try_body w self other src h1 of
          (Inl e, h2) \<Rightarrow> (except_handler w e (files h2 self) (files h2 other) src, h2)
        | (Inr r, h2) \<Rightarrow> (Inr r, h2))"
  by (simp add: File_compare_def)

lemma try_body_empty:
  "compare_using_details w self other src h1 = (Inr None, h2) \<Longrightarrow>
     try_body w self other src h1 =
       (case compare_bytes w (files h2 self) (files h2 other) src of
          Inl e \<Rightarrow> (Inl e, h2)
        | Inr None \<Rightarrow> (Inr None, h2)
        | Inr (Some d) \<Rightarrow> (Inr (Some (add_comment d emptiness_comment)), h2))"
  by (simp add: try_body_def)

lemma try_body_raises:
  "compare_using_details w self other src h1 = (Inl e, h2) \<Longrightarrow>
     try_body w self other src h1 = (Inl e, h2)"
  by (simp add: try_body_def)

lemma except_handler_reraises:
  "compare_bytes w self other src = Inl e' \<Longrightarrow> except_handler w e' self other src = Inl e'"
  by (cases e') (simp_all add: except_handler_def)

text \<open>
  C3. For a file that supports detail comparison (it has \<^verbatim>\<open>compare_details\<close> or a container
  view): when the comparison of details finds no difference and the byte comparison of
  the two files yields a difference, \<^verbatim>\<open>compare\<close> returns that difference of
  \<^verbatim>\<open>compare_bytes\<close> with one comment added at the end, whose text is exactly
  \<^verbatim>\<open>No differences found inside, yet data differs\<close>.
\<close>

theorem compare_fallback_on_emptiness:
  "details_supported self h = (Inr True, h1)
   \<and> compare_using_details w self other src h1 = (Inr None, h2)
   \<and> compare_bytes w (files h2 self) (files h2 other) src = Inr (Some d) \<longrightarrow>
     fst (File_compare w self other src h) =
       Inr (Some (Difference (unified_diff d) (source1 d) (source2 d)
                    (comments d @ [''No differences found inside, yet data differs''])
                    (details d)))"
  by (simp add: File_compare_supported try_body_empty add_comment_def emptiness_comment_def)

text \<open>
  C10. On the same path, when the comparison of details finds no difference and the byte
  comparison finds none either, \<^verbatim>\<open>compare\<close> returns \<^verbatim>\<open>None\<close>: nothing records that the
  details were empty. Whenever \<^verbatim>\<open>compare\<close> returns a difference on this path, it is the one
  of \<^verbatim>\<open>compare_bytes\<close> with the comment added; so the comment exists only when the byte
  comparison produced a difference.
\<close>

theorem compare_identical_no_trace:
  "details_supported self h = (Inr True, h1)
   \<and> compare_using_details w self other src h1 = (Inr None, h2) \<longrightarrow>
     (compare_bytes w (files h2 self) (files h2 other) src = Inr None \<longrightarrow>
        fst (File_compare w self other src h) = Inr None)
     \<and> (\<forall>r. fst (File_compare w self other src h) = Inr (Some r) \<longrightarrow>
           (\<exists>d. compare_bytes w (files h2 self) (files h2 other) src = Inr (Some d)
                \<and> r = add_comment d ''No differences found inside, yet data differs''))"
proof (intro impI, elim conjE)
  assume sup: "details_supported self h = (Inr True, h1)"
    and emp: "compare_using_details w self other src h1 = (Inr None, h2)"
  show "(compare_bytes w (files h2 self) (files h2 other) src = Inr None \<longrightarrow>
        fst (File_compare w self other src h) = Inr None)
     \<and> (\<forall>r. fst (File_compare w self other src h) = Inr (Some r) \<longrightarrow>
           (\<exists>d. compare_bytes w (files h2 self) (files h2 other) src = Inr (Some d)
                \<and> r = add_comment d ''No differences found inside, yet data differs''))"
  proof (cases "compare_bytes w (files h2 self) (files h2 other) src")
    case (Inl e')
    then show ?thesis
      by (simp add: File_compare_supported [OF sup] try_body_empty [OF emp]
          except_handler_reraises)
  next
    case (Inr r)
    then show ?thesis
      by (cases r)
         (simp_all add: File_compare_supported [OF sup] try_body_empty [OF emp]
            emptiness_comment_def)
  qed
qed

lemma example_supported: "details_supported 0 example_heap = (Inr True, example_heap)"
  by (simp add: details_supported_def example_heap_def archive_file_def)

lemma example_details_empty:
  assumes "compare_details w 0 2 src = Inr []" and "container_compare w 0 None = Inr []"
  shows "compare_using_details w 0 2 src example_heap = (Inr None, cached_heap)"
proof -
  have first: "as_container 0 example_heap = (Inr (Some 0), cached_heap)"
    by (simp add: as_container_def new_container_def cached_heap_def example_heap_def
        archive_file_def set_as_container_def)
  have second: "as_container 0 cached_heap = (Inr (Some 0), cached_heap)"
    by (simp add: as_container_def cached_heap_def example_heap_def archive_file_def
        set_as_container_def)
  have third: "as_container 2 cached_heap = (Inr None, cached_heap)"
    by (simp add: as_container_def cached_heap_def example_heap_def filesystem_file_def
        set_as_container_def)
  have "container_details w 0 2 [] example_heap = (Inr [], cached_heap)"
    using assms(2) by (simp add: container_details_def first second third filter_None_def
        List.map_filter_simps)
  moreover have "has_compare_details (files example_heap 0)"
    by (simp add: example_heap_def archive_file_def)
  ultimately show ?thesis
    using assms(1)
    by (simp add: compare_using_details_def filter_None_def List.map_filter_simps)
qed

lemma cached_heap_files:
  "path (files cached_heap 0) = ''/a''" "name (files cached_heap 0) = ''/a''"
  "path (files cached_heap 2) = ''/c''" "name (files cached_heap 2) = ''/c''"
  by (simp_all add: cached_heap_def example_heap_def set_as_container_def archive_file_def
      filesystem_file_def path_def)

lemma example_heap_names:
  "path (files example_heap 0) = ''/a''" "name (files example_heap 0) = ''/a''"
  "path (files example_heap 2) = ''/c''" "name (files example_heap 2) = ''/c''"
  by (simp_all add: example_heap_def archive_file_def filesystem_file_def path_def)

theorem compare_fallback_on_emptiness_witness:
  "fst (File_compare silent_world 0 2 NoSource example_heap) =
     Inr (Some (Difference (Some ''@@ -1 +1 @@'') ''/a'' ''/c''
                  [''No differences found inside, yet data differs''] []))"
proof -
  have emp: "compare_using_details silent_world 0 2 NoSource example_heap = (Inr None, cached_heap)"
    by (rule example_details_empty) (simp_all add: silent_world_def quiet_world_def)
  have bytes: "compare_bytes silent_world (files cached_heap 0) (files cached_heap 2) NoSource
      = Inr (Some (hex_difference ''/a'' ''/c'' (SourcePair ''/a'' ''/c'')))"
    by (simp add: compare_bytes_def compare_binary_files_def cached_heap_files silent_world_def)
  have hyp: "details_supported 0 example_heap = (Inr True, example_heap)
     \<and> compare_using_details silent_world 0 2 NoSource example_heap = (Inr None, cached_heap)
     \<and> compare_bytes silent_world (files cached_heap 0) (files cached_heap 2) NoSource
         = Inr (Some (hex_difference ''/a'' ''/c'' (SourcePair ''/a'' ''/c'')))"
    by (intro conjI example_supported emp bytes)
  from compare_fallback_on_emptiness [THEN mp, OF hyp]
  show ?thesis by (simp add: hex_difference_def plain_labels_def)
qed

theorem compare_identical_no_trace_witness:
  "fst (File_compare quiet_world 0 2 NoSource example_heap) = Inr None"
proof -
  have emp: "compare_using_details quiet_world 0 2 NoSource example_heap = (Inr None, cached_heap)"
    by (rule example_details_empty) (simp_all add: quiet_world_def)
  have bytes: "compare_bytes quiet_world (files cached_heap 0) (files cached_heap 2) NoSource
      = Inr None"
    by (simp add: compare_bytes_def compare_binary_files_def quiet_world_def)
  have hyp: "details_supported 0 example_heap = (Inr True, example_heap)
     \<and> compare_using_details quiet_world 0 2 NoSource example_heap = (Inr None, cached_heap)"
    by (intro conjI example_supported emp)
  from compare_identical_no_trace [THEN mp, OF hyp, THEN conjunct1, THEN mp, OF bytes]
  show ?thesis .
qed

text \<open>
  C1, as the code has it. For a file that supports detail comparison, when the comparison
  of details raises \<open>CalledProcessError\<close> or \<open>RequiredToolNotFound\<close>, \<^verbatim>\<open>compare\<close> catches it and
  calls \<^verbatim>\<open>compare_bytes\<close>. When that call returns, \<^verbatim>\<open>compare\<close> does not raise: it returns \<^verbatim>\<open>None\<close>
  if the byte comparison found nothing, and otherwise the difference of the byte
  comparison with comments added at the end: for a failed command, one comment with the
  command line, the exit status and the captured output (indented; \<^verbatim>\<open><none>\<close> when there
  is none); for a missing tool, one comment naming the tool and, when its package is
  known, a second one naming the package. When \<^verbatim>\<open>compare_bytes\<close> itself raises, that
  exception propagates. Any other exception of the comparison of details propagates.
\<close>

theorem compare_tool_fallback:
  "details_supported self h = (Inr True, h1)
   \<and> compare_using_details w self other src h1 = (Inl e, h2) \<longrightarrow>
     (\<forall>c rc out. e = CalledProcessError c rc out \<longrightarrow>
        fst (File_compare w self other src h) =
          (case compare_bytes w (files h2 self) (files h2 other) src of
             Inl e' \<Rightarrow> Inl e'
           | Inr None \<Rightarrow> Inr None
           | Inr (Some d) \<Rightarrow>
               Inr (Some (Difference (unified_diff d) (source1 d) (source2 d)
                  (comments d @
                     [''Command '' @ [BQ] @ join '' '' c @ [BQ] @ '' exited with '' @ str_int rc
                        @ ''. Output:'' @ [NL]
                        @ (case out of
                             None \<Rightarrow> ''<none>''
                           | Some b \<Rightarrow>
                               if b = [] then ''<none>'' else indent (decode_utf8_replace w b))])
                  (details d)))))
     \<and> (\<forall>c. e = RequiredToolNotFound c \<longrightarrow>
        fst (File_compare w self other src h) =
          (case compare_bytes w (files h2 self) (files h2 other) src of
             Inl e' \<Rightarrow> Inl e'
           | Inr None \<Rightarrow> Inr None
           | Inr (Some d) \<Rightarrow>
               Inr (Some (Difference (unified_diff d) (source1 d) (source2 d)
                  (comments d @
                     [[SQ] @ c @ [SQ]
                        @ '' not available in path. Falling back to binary comparison.'']
                     @ (case get_package w c of
                          None \<Rightarrow> []
                        | Some p \<Rightarrow>
                            if p = [] then []
                            else [''Install '' @ [SQ] @ p @ [SQ] @ '' to get a better output.'']))
                  (details d)))))
     \<and> (\<forall>x. e = OtherError x \<longrightarrow> fst (File_compare w self other src h) = Inl (OtherError x))"
  by (auto simp: File_compare_supported try_body_raises except_handler_def add_comment_def
      tool_failure_comment_def tool_missing_comment_def install_comment_def
      split: sum.splits option.splits)

lemma example_details_raise:
  assumes "compare_details w 0 2 src = Inl e"
  shows "compare_using_details w 0 2 src example_heap = (Inl e, example_heap)"
  using assms by (simp add: compare_using_details_def example_heap_def archive_file_def)

lemma digits_9: "digits 9 = ''9''"
  by code_simp

theorem compare_tool_fallback_witness:
  "fst (File_compare failing_world 0 2 NoSource example_heap) =
     Inr (Some (Difference (Some ''@@ -1 +1 @@'') ''/a'' ''/c''
        [''Command '' @ [BQ] @ ''zipinfo /a'' @ [BQ] @ '' exited with 9. Output:'' @ [NL]
           @ ''    bad zipfile''] []))
   \<and> fst (File_compare missing_world 0 2 NoSource example_heap) =
     Inr (Some (Difference (Some ''@@ -1 +1 @@'') ''/a'' ''/c''
        [[SQ] @ ''zipinfo'' @ [SQ] @ '' not available in path. Falling back to binary comparison.'',
         ''Install '' @ [SQ] @ ''unzip'' @ [SQ] @ '' to get a better output.''] []))"
proof -
  have fail: "details_supported 0 example_heap = (Inr True, example_heap)
     \<and> compare_using_details failing_world 0 2 NoSource example_heap =
         (Inl (CalledProcessError [''zipinfo'', ''/a''] 9 (Some ''bad zipfile'')), example_heap)"
    by (intro conjI example_supported example_details_raise) (simp add: failing_world_def)
  have miss: "details_supported 0 example_heap = (Inr True, example_heap)
     \<and> compare_using_details missing_world 0 2 NoSource example_heap =
         (Inl (RequiredToolNotFound ''zipinfo''), example_heap)"
    by (intro conjI example_supported example_details_raise) (simp add: missing_world_def)
  have bytes1: "compare_bytes failing_world (files example_heap 0) (files example_heap 2) NoSource
      = Inr (Some (hex_difference ''/a'' ''/c'' (SourcePair ''/a'' ''/c'')))"
    by (simp add: compare_bytes_def compare_binary_files_def example_heap_names failing_world_def)
  have bytes2: "compare_bytes missing_world (files example_heap 0) (files example_heap 2) NoSource
      = Inr (Some (hex_difference ''/a'' ''/c'' (SourcePair ''/a'' ''/c'')))"
    by (simp add: compare_bytes_def compare_binary_files_def example_heap_names missing_world_def)
  have decode: "decode_utf8_replace failing_world ''bad zipfile'' = ''bad zipfile''"
    by (simp add: failing_world_def quiet_world_def)
  have package: "get_package missing_world ''zipinfo'' = Some ''unzip''"
    by (simp add: missing_world_def)
  have nine: "str_int 9 = ''9''"
    by (simp add: str_int_def digits_9)
  have ind: "indent ''bad zipfile'' = ''    bad zipfile''"
    by (simp add: indent_def NL_def)
  from compare_tool_fallback [THEN mp, OF fail, THEN conjunct1, rule_format, OF refl]
  have one: "fst (File_compare failing_world 0 2 NoSource example_heap) =
     Inr (Some (Difference (Some ''@@ -1 +1 @@'') ''/a'' ''/c''
        [''Command '' @ [BQ] @ ''zipinfo /a'' @ [BQ] @ '' exited with 9. Output:'' @ [NL]
           @ ''    bad zipfile''] []))"
    by (simp add: bytes1 decode nine ind hex_difference_def plain_labels_def)
  from compare_tool_fallback [THEN mp, OF miss, THEN conjunct2, THEN conjunct1, rule_format, OF refl]
  have two: "fst (File_compare missing_world 0 2 NoSource example_heap) =
     Inr (Some (Difference (Some ''@@ -1 +1 @@'') ''/a'' ''/c''
        [[SQ] @ ''zipinfo'' @ [SQ] @ '' not available in path. Falling back to binary comparison.'',
         ''Install '' @ [SQ] @ ''unzip'' @ [SQ] @ '' to get a better output.''] []))"
    by (simp add: bytes2 package hex_difference_def plain_labels_def)
  from one two show ?thesis by (rule conjI)
qed

theorem compare_fallback_raises_counterexample:
  "details_supported 0 example_heap = (Inr True, example_heap)
   \<and> compare_using_details toolless_world 0 2 NoSource example_heap =
       (Inl (RequiredToolNotFound ''zipinfo''), example_heap)
   \<and> fst (File_compare toolless_world 0 2 NoSource example_heap) =
       Inl (RequiredToolNotFound ''diff'')"
proof -
  have sup: "details_supported 0 example_heap = (Inr True, example_heap)"
    by (rule example_supported)
  have det: "compare_using_details toolless_world 0 2 NoSource example_heap =
       (Inl (RequiredToolNotFound ''zipinfo''), example_heap)"
    by (rule example_details_raise) (simp add: toolless_world_def)
  have bytes: "compare_bytes toolless_world (files example_heap 0) (files example_heap 2) NoSource
      = Inl (RequiredToolNotFound ''diff'')"
    by (simp add: compare_bytes_def compare_binary_files_def hexdump_fallback_def
        toolless_world_def quiet_world_def)
  have "fst (File_compare toolless_world 0 2 NoSource example_heap) =
       Inl (RequiredToolNotFound ''diff'')"
    by (simp add: File_compare_supported [OF sup] try_body_raises [OF det] except_handler_def
        bytes)
  with sup det show ?thesis by simp
qed

section \<open>Properties of \<^verbatim>\<open>NonExistingFile.compare\<close>\<close>

lemma details_get_reverse: "details (get_reverse w d) = map (get_reverse w) (details d)"
  by (cases d) simp

lemma labels_get_reverse:
  "source1 (get_reverse w d) = source2 d \<and> source2 (get_reverse w d) = source1 d
   \<and> comments (get_reverse w d) = comments d"
  by (cases d) simp

lemma subtree_get_reverse:
  "subtree (get_reverse w d) p = map_option (get_reverse w) (subtree d p)"
proof (induction p arbitrary: d)
  case Nil
  show ?case by simp
next
  case (Cons i p)
  show ?case
  proof (cases "i < length (details d)")
    case True
    then show ?thesis by (simp add: details_get_reverse Cons.IH)
  next
    case False
    then show ?thesis by (simp add: details_get_reverse)
  qed
qed

text \<open>
  C2. For a \<^verbatim>\<open>NonExistingFile\<close> \<open>self\<close> and an object \<open>other\<close> that is not one,
  \<^verbatim>\<open>self.compare(other)\<close> is the structural reverse of \<^verbatim>\<open>other.compare(self)\<close>: \<^verbatim>\<open>None\<close> when
  that is \<^verbatim>\<open>None\<close>, and otherwise a tree of the same shape in which, at every position, the
  node has the two labels of the original node swapped and the same comments and number
  of details (an exception of \<^verbatim>\<open>other.compare(self)\<close> propagates). When \<open>other\<close> is a
  \<^verbatim>\<open>NonExistingFile\<close> too, the result is one difference with the comment
  \<^verbatim>\<open>Trying to compare two non-existing files.\<close>, no details and no textual diff.
\<close>

theorem missing_side_reversal:
  "(klass (files h other) \<noteq> NonExistingFile \<longrightarrow>
      fst (NonExistingFile_compare w self other src h) =
        (case fst (real_compare w other self src h) of
           Inl e \<Rightarrow> Inl e
         | Inr None \<Rightarrow> Inr None
         | Inr (Some d) \<Rightarrow> Inr (Some (get_reverse w d)))
      \<and> (\<forall>d p. fst (real_compare w other self src h) = Inr (Some d) \<longrightarrow>
            (\<exists>r. fst (NonExistingFile_compare w self other src h) = Inr (Some r)
               \<and> (case subtree d p of
                     None \<Rightarrow> subtree r p = None
                   | Some n \<Rightarrow>
                       (\<exists>m. subtree r p = Some m
                          \<and> source1 m = source2 n \<and> source2 m = source1 n
                          \<and> comments m = comments n
                          \<and> length (details m) = length (details n))))))
   \<and> (klass (files h other) = NonExistingFile \<longrightarrow>
        (\<exists>d. NonExistingFile_compare w self other src h = (Inr (Some d), h)
           \<and> comments d = [''Trying to compare two non-existing files.'']
           \<and> details d = [] \<and> unified_diff d = None))"
proof (intro conjI impI allI)
  assume real: "klass (files h other) \<noteq> NonExistingFile"
  show rev: "fst (NonExistingFile_compare w self other src h) =
        (case fst (real_compare w other self src h) of
           Inl e \<Rightarrow> Inl e
         | Inr None \<Rightarrow> Inr None
         | Inr (Some d) \<Rightarrow> Inr (Some (get_reverse w d)))"
    using real
    by (cases "real_compare w other self src h")
       (simp add: NonExistingFile_compare_def split: sum.splits option.splits)
  fix d p
  assume backward: "fst (real_compare w other self src h) = Inr (Some d)"
  have res: "fst (NonExistingFile_compare w self other src h) = Inr (Some (get_reverse w d))"
    using rev backward by simp
  have "case subtree d p of
          None \<Rightarrow> subtree (get_reverse w d) p = None
        | Some n \<Rightarrow>
            (\<exists>m. subtree (get_reverse w d) p = Some m
               \<and> source1 m = source2 n \<and> source2 m = source1 n
               \<and> comments m = comments n
               \<and> length (details m) = length (details n))"
    by (simp add: subtree_get_reverse labels_get_reverse details_get_reverse
        split: option.splits)
  with res show "\<exists>r. fst (NonExistingFile_compare w self other src h) = Inr (Some r)
               \<and> (case subtree d p of
                     None \<Rightarrow> subtree r p = None
                   | Some n \<Rightarrow>
                       (\<exists>m. subtree r p = Some m
                          \<and> source1 m = source2 n \<and> source2 m = source1 n
                          \<and> comments m = comments n
                          \<and> length (details m) = length (details n)))"
    by blast
next
  assume "klass (files h other) = NonExistingFile"
  then show "\<exists>d. NonExistingFile_compare w self other src h = (Inr (Some d), h)
           \<and> comments d = [''Trying to compare two non-existing files.'']
           \<and> details d = [] \<and> unified_diff d = None"
    by (simp add: NonExistingFile_compare_def new_Difference_def both_missing_comment_def)
qed

lemma example_backward:
  "fst (real_compare detail_world 0 1 NoSource example_heap) =
     Inr (Some (Difference None ''/a'' ''/b'' [] [listing_difference]))"
proof -
  let ?h3 = "cached_heap\<lparr>containers := containers cached_heap
                @ [\<lparr>container_class = ''ZipContainer'', source = 1\<rparr>]\<rparr>"
  have first: "as_container 0 example_heap = (Inr (Some 0), cached_heap)"
    by (simp add: as_container_def new_container_def cached_heap_def example_heap_def
        archive_file_def set_as_container_def)
  have second: "as_container 0 cached_heap = (Inr (Some 0), cached_heap)"
    by (simp add: as_container_def cached_heap_def example_heap_def archive_file_def
        set_as_container_def)
  have third: "as_container 1 cached_heap = (Inr (Some 1), ?h3)"
    by (simp add: as_container_def new_container_def cached_heap_def example_heap_def
        archive_file_def missing_file_def set_as_container_def)
  have cont: "container_details detail_world 0 1 [listing_difference] example_heap
      = (Inr [listing_difference], ?h3)"
    by (simp add: container_details_def first second third filter_None_def
        List.map_filter_simps detail_world_def quiet_world_def del: One_nat_def)
  have names: "name (files cached_heap 0) = ''/a''" "name (files cached_heap 1) = ''/b''"
    by (simp_all add: cached_heap_def example_heap_def set_as_container_def archive_file_def
        missing_file_def)
  have "has_compare_details (files example_heap 0)"
    and "compare_details detail_world 0 1 NoSource = Inr [Some listing_difference]"
    and "source_labels detail_world ''/a'' ''/b'' NoSource = (''/a'', ''/b'')"
    by (simp_all add: example_heap_def archive_file_def detail_world_def quiet_world_def
        plain_labels_def)
  then have det: "compare_using_details detail_world 0 1 NoSource example_heap =
      (Inr (Some (Difference None ''/a'' ''/b'' [] [listing_difference])), ?h3)"
    by (simp add: compare_using_details_def filter_None_def List.map_filter_simps cont names
        add_details_def new_Difference_def del: One_nat_def)
  have "\<not> overrides_compare (files example_heap 0)"
    by (simp add: example_heap_def archive_file_def)
  then show ?thesis
    by (simp add: real_compare_def File_compare_supported [OF example_supported] try_body_def
        det del: One_nat_def)
qed

theorem missing_side_reversal_witness:
  "fst (NonExistingFile_compare detail_world 1 0 NoSource example_heap) =
     Inr (Some (Difference None ''/b'' ''/a'' []
                  [Difference (Some ''@@ -1 +0,0 @@'') ''zipinfo /b'' ''zipinfo /a'' [] []]))
   \<and> (\<exists>d. NonExistingFile_compare detail_world 1 3 NoSource example_heap
            = (Inr (Some d), example_heap)
         \<and> comments d = [''Trying to compare two non-existing files.'']
         \<and> details d = [] \<and> unified_diff d = None)"
proof -
  have real: "klass (files example_heap 0) \<noteq> NonExistingFile"
    by (simp add: example_heap_def archive_file_def)
  have missing: "klass (files example_heap 3) = NonExistingFile"
    by (simp add: example_heap_def missing_file_def)
  have ident: "reverse_unified_diff detail_world = (\<lambda>u. u)"
    by (simp add: detail_world_def quiet_world_def)
  from missing_side_reversal
         [where h = example_heap and other = 0 and self = 1 and w = detail_world
            and src = NoSource, THEN conjunct1, THEN mp, OF real, THEN conjunct1]
  have one: "fst (NonExistingFile_compare detail_world 1 0 NoSource example_heap) =
     Inr (Some (Difference None ''/b'' ''/a'' []
                  [Difference (Some ''@@ -1 +0,0 @@'') ''zipinfo /b'' ''zipinfo /a'' [] []]))"
    by (simp add: example_backward listing_difference_def ident del: One_nat_def)
  note two = missing_side_reversal
         [where h = example_heap and other = 3 and self = 1 and w = detail_world
            and src = NoSource, THEN conjunct2, THEN mp, OF missing]
  from one two show ?thesis by (rule conjI)
qed

section \<open>Properties of \<^verbatim>\<open>Stat.filter\<close>\<close>

text \<open>
  C6 fails on the code. Two files that differ in their inode number only, 1234 and
  12345678: \<^verbatim>\<open>Stat.filter\<close> removes \<^verbatim>\<open>Inode: 1234\<close> and \<^verbatim>\<open>Inode: 12345678\<close> but leaves the
  padding that \<^verbatim>\<open>stat\<close> prints after the number, eight spaces in one line and four in
  the other, so the filtered lines differ and the comparison of the filtered outputs
  reports a difference. (A changed access or change time is filtered out whole: both
  lines become a lone newline.)
\<close>

theorem Stat_filter_keeps_inode_padding:
  "Stat_filter (stat_line ''1234      '') = Some ([TAB] @ ''        '' @ [NL])
   \<and> Stat_filter (stat_line ''12345678  '') = Some ([TAB] @ ''    '' @ [NL])
   \<and> Stat_filter (stat_line ''1234      '') \<noteq> Stat_filter (stat_line ''12345678  '')
   \<and> Stat_filter (''Access: 2015-06-01 10:00:00.000000000 +0000'' @ [NL]) = Some [NL]
   \<and> Stat_filter (''Access: 2015-07-09 23:11:45.000000000 +0000'' @ [NL]) = Some [NL]"
  by code_simp

section \<open>Properties of the directory comparison\<close>
















end
